theory Spec2Isabelle
  imports Complex_Main
begin

section \<open>Python values\<close>

text \<open>
  A Python \<open>str\<close> is a sequence of Unicode code points; a code point is a natural number.
  String literals of the source are written \<open>S ''...''\<close>. Floats are abstracted as reals
  (no rounding, no NaN); Python's \<open>None\<close> where a string is expected is \<open>None\<close> of an
  option type.
\<close>

type_synonym pystr = "nat list"

abbreviation S :: "string \<Rightarrow> pystr" where
  "S cs \<equiv> map of_char cs"

datatype error =
    InvalidNameError
  | MissingFieldError
  | SyncError
  | StoreWriteError
  | ValueError
  | TypeError
  | AttributeError
  | ImportError
  | AssertionError
  | Raised string

datatype pyval =
    PInt int
  | PFloat real
  | PStr pystr
  | PIntList "int list"
  | PFloatList "real list"

text \<open>The \<open>result\<close> object handed to \<open>_run\<close>: a dictionary from field names to values.\<close>

type_synonym result = "string \<rightharpoonup> pyval"

subsection \<open>\<open>str(n)\<close> for an integer\<close>

definition digit_char :: "nat \<Rightarrow> nat" where
  "digit_char d = 48 + d"

fun digits :: "nat \<Rightarrow> pystr" where
  "digits n = (if n < 10 then [digit_char n] else digits (n div 10) @ [digit_char (n mod 10)])"

declare digits.simps [simp del]

definition str_int :: "int \<Rightarrow> pystr" where
  "str_int i = (if i < 0 then 45 # digits (nat (- i)) else digits (nat i))"

text \<open>Reading a digit string back (used only to show that \<open>str\<close> loses nothing).\<close>

definition undigits :: "pystr \<Rightarrow> nat" where
  "undigits cs = foldl (\<lambda>acc c. 10 * acc + (c - 48)) 0 cs"

section \<open>Test names (\<open>Geweke.__init__\<close>, \<open>MCMCBanana.__init__\<close>)\<close>

text \<open>
  The constructors convert their arguments (\<open>str(method)\<close>, \<open>int(nchains)\<close>,
  \<open>float(pass_threshold)\<close>, \<open>int(max_iter)\<close>); the model takes them already of these types.
  The base class \<open>FunctionalTest\<close> is not among the sources; of \<open>super().__init__(name)\<close>
  the model keeps that the instance carries the computed name. \<open>Geweke._initial_phase_iter\<close>
  is the constant 200 and is read only inside the successive-conditional simulator.
\<close>

record testcase =
  self_method :: pystr
  self_nchains :: int
  self_pass_threshold :: real
  self_max_iter :: int
  self_name :: pystr

definition Geweke_name :: "pystr \<Rightarrow> int \<Rightarrow> pystr" where
  "Geweke_name m n = S ''geweke_mcmc'' @ m @ S ''_'' @ str_int n"

definition Geweke_init :: "pystr \<Rightarrow> int \<Rightarrow> real \<Rightarrow> int \<Rightarrow> testcase" where
  "Geweke_init method nchains pass_threshold max_iter =
     \<lparr> self_method = method, self_nchains = nchains, self_pass_threshold = pass_threshold,
       self_max_iter = max_iter, self_name = Geweke_name method nchains \<rparr>"

definition MCMCBanana_name :: "pystr \<Rightarrow> int \<Rightarrow> pystr" where
  "MCMCBanana_name m n = S ''mcmc_banana_'' @ m @ S ''_'' @ str_int n"

definition MCMCBanana_init :: "pystr \<Rightarrow> int \<Rightarrow> real \<Rightarrow> int \<Rightarrow> testcase" where
  "MCMCBanana_init method nchains pass_threshold max_iter =
     \<lparr> self_method = method, self_nchains = nchains, self_pass_threshold = pass_threshold,
       self_max_iter = max_iter, self_name = MCMCBanana_name method nchains \<rparr>"

section \<open>Name format (\<open>NAME_FORMAT\<close>)\<close>


definition digit_class :: "nat \<Rightarrow> bool" where
  "digit_class c = (48 \<le> c \<and> c \<le> 57)"







section \<open>Date formatting (\<open>date\<close>)\<close>

text \<open>
  \<open>time.strftime(format, t)\<close> for the directives of \<open>DATE_FORMAT\<close>. A time value is a
  \<open>struct_time\<close> (or a 9-tuple). \<open>time.strftime\<close> raises ValueError when a field is out of
  range, and reads a month, a day of the month or a day of the year of 0 as 1. \<open>%Y\<close> is the
  year as a decimal number, of as many digits as the year has; the other directives used
  here are decimal numbers of two digits.
\<close>

record struct_time =
  tm_year :: int
  tm_mon :: int
  tm_mday :: int
  tm_hour :: int
  tm_min :: int
  tm_sec :: int
  tm_wday :: int
  tm_yday :: int
  tm_isdst :: int

definition checktm :: "struct_time \<Rightarrow> error + struct_time" where
  "checktm t =
     (if tm_mon t < 0 \<or> 12 < tm_mon t then Inl ValueError
      else if tm_mday t < 0 \<or> 31 < tm_mday t then Inl ValueError
      else if tm_hour t < 0 \<or> 23 < tm_hour t then Inl ValueError
      else if tm_min t < 0 \<or> 59 < tm_min t then Inl ValueError
      else if tm_sec t < 0 \<or> 61 < tm_sec t then Inl ValueError
      else if tm_wday t + 1 < 0 \<and> (tm_wday t + 1) mod 7 \<noteq> 0 then Inl ValueError
      else if tm_yday t < 0 \<or> 366 < tm_yday t then Inl ValueError
      else Inr (t\<lparr> tm_mon := (if tm_mon t = 0 then 1 else tm_mon t),
                  tm_mday := (if tm_mday t = 0 then 1 else tm_mday t),
                  tm_yday := (if tm_yday t = 0 then 1 else tm_yday t) \<rparr>))"

definition pad2 :: "int \<Rightarrow> pystr" where
  "pad2 n = (if 0 \<le> n \<and> n < 10 then 48 # str_int n else str_int n)"

definition directive :: "char \<Rightarrow> struct_time \<Rightarrow> pystr" where
  "directive d t =
     (if d = CHR ''Y'' then str_int (tm_year t)
      else if d = CHR ''m'' then pad2 (tm_mon t)
      else if d = CHR ''d'' then pad2 (tm_mday t)
      else if d = CHR ''H'' then pad2 (tm_hour t)
      else if d = CHR ''M'' then pad2 (tm_min t)
      else if d = CHR ''S'' then pad2 (tm_sec t)
      else [of_char CHR ''%'', of_char d])"

fun format_tm :: "string \<Rightarrow> struct_time \<Rightarrow> pystr" where
  "format_tm (c # d # fs) t =
     (if c = CHR ''%'' then directive d t @ format_tm fs t
      else of_char c # format_tm (d # fs) t)"
| "format_tm [c] t = [of_char c]"
| "format_tm [] t = []"

definition strftime :: "string \<Rightarrow> struct_time \<Rightarrow> error + pystr" where
  "strftime fmt t = (case checktm t of Inl e \<Rightarrow> Inl e | Inr t' \<Rightarrow> Inr (format_tm fmt t'))"

definition DATE_FORMAT :: string where
  "DATE_FORMAT = ''%Y-%m-%d-%H:%M:%S''"

text \<open>
  \<open>date(when=None)\<close>: \<open>now\<close> is what \<open>time.strftime\<close> reads from the clock when it is given
  no time (\<open>time.localtime()\<close>). A \<open>struct_time\<close> is never falsy, so \<open>if when\<close> takes the
  first branch for every time value and the second for \<open>None\<close>.
\<close>

definition date :: "struct_time \<Rightarrow> struct_time option \<Rightarrow> error + pystr" where
  "date now when =
     (case when of
        Some w \<Rightarrow> strftime DATE_FORMAT w
      | None \<Rightarrow> strftime DATE_FORMAT now)"

text \<open>
  The spec's format \<open>YYYY-MM-DD-HH:MM:SS\<close> as a shape: a letter of the mask stands for one
  decimal digit, any other character for itself.
\<close>

fun shaped :: "string \<Rightarrow> pystr \<Rightarrow> bool" where
  "shaped [] [] = True"
| "shaped (m # ms) (c # cs) =
     ((if m \<in> set ''YMDHS'' then digit_class c else c = of_char m) \<and> shaped ms cs)"
| "shaped [] (c # cs) = False"
| "shaped (m # ms) [] = False"

definition run_date_format :: "pystr \<Rightarrow> bool" where
  "run_date_format s = shaped ''YYYY-MM-DD-HH:MM:SS'' s"

text \<open>
  The fields of a time value as \<open>time.localtime\<close>, \<open>time.gmtime\<close> and \<open>time.strptime\<close>
  produce them.
\<close>

definition time_value :: "struct_time \<Rightarrow> bool" where
  "time_value t =
     (1 \<le> tm_mon t \<and> tm_mon t \<le> 12 \<and> 1 \<le> tm_mday t \<and> tm_mday t \<le> 31 \<and>
      0 \<le> tm_hour t \<and> tm_hour t \<le> 23 \<and> 0 \<le> tm_min t \<and> tm_min t \<le> 59 \<and>
      0 \<le> tm_sec t \<and> tm_sec t \<le> 61 \<and> 0 \<le> tm_wday t \<and> tm_wday t \<le> 6 \<and>
      1 \<le> tm_yday t \<and> tm_yday t \<le> 366)"

section \<open>Revision cache (\<open>prepare_pints\<close>)\<close>

text \<open>
  The module-level globals \<open>PINTS_COMMIT\<close> and \<open>PINTS_VERSION\<close> (Python \<open>None\<close> at load
  time), \<open>sys.path\<close>, and a log of the calls made to the git layer and to pints. The git
  layer and pints are not among the sources: what their calls return or raise is the
  environment of one call of \<open>prepare_pints\<close>, with the result types of the spec's
  RevisionProvider (\<open>current_hash() -> string\<close>, \<open>current_version(formatted) -> string\<close>).
\<close>

datatype call = Git_pints_refresh | Git_pints_hash | Import_pints | Pints_version

record pfunk_state =
  PINTS_COMMIT :: "pystr option"
  PINTS_VERSION :: "pystr option"
  sys_path :: "pystr list"
  calls :: "call list"

record revision_env =
  DIR_PINTS_REPO :: pystr
  DIR_PINTS_MODULE :: pystr
  git_pints_refresh :: "error option"
  git_pints_hash :: "error + pystr"
  import_pints :: "error + pystr"
  pints_version :: "error + pystr"

definition did :: "call \<Rightarrow> pfunk_state \<Rightarrow> pfunk_state" where
  "did c s = s\<lparr> calls := calls s @ [c] \<rparr>"

definition ensure_commit :: "revision_env \<Rightarrow> pfunk_state \<Rightarrow> error option \<times> pfunk_state" where
  "ensure_commit e s =
     (if PINTS_COMMIT s = None then
        (case git_pints_refresh e of
           Some x \<Rightarrow> (Some x, did Git_pints_refresh s)
         | None \<Rightarrow>
            (case git_pints_hash e of
               Inl x \<Rightarrow> (Some x, did Git_pints_hash (did Git_pints_refresh s))
             | Inr h \<Rightarrow>
                 (None, (did Git_pints_hash (did Git_pints_refresh s))\<lparr> PINTS_COMMIT := Some h \<rparr>)))
      else (None, s))"

definition ensure_version :: "revision_env \<Rightarrow> pfunk_state \<Rightarrow> error option \<times> pfunk_state" where
  "ensure_version e s =
     (if PINTS_VERSION s = None then
        (let s1 = did Import_pints (s\<lparr> sys_path := DIR_PINTS_REPO e # sys_path s \<rparr>) in
         case import_pints e of
           Inl x \<Rightarrow> (Some x, s1)
         | Inr path0 \<Rightarrow>
             if path0 \<noteq> DIR_PINTS_MODULE e then (Some AssertionError, s1)
             else
               (case pints_version e of
                  Inl x \<Rightarrow> (Some x, did Pints_version s1)
                | Inr v \<Rightarrow> (None, (did Pints_version s1)\<lparr> PINTS_VERSION := Some v \<rparr>)))
      else (None, s))"

definition prepare_pints :: "revision_env \<Rightarrow> pfunk_state \<Rightarrow> error option \<times> pfunk_state" where
  "prepare_pints e s =
     (case ensure_commit e s of
        (Some x, s1) \<Rightarrow> (Some x, s1)
      | (None, s1) \<Rightarrow> ensure_version e s1)"

text \<open>A sequence of further calls, each in its own environment; it stops at the first raise.\<close>

fun prepare_pints_again :: "revision_env list \<Rightarrow> pfunk_state \<Rightarrow> error option \<times> pfunk_state" where
  "prepare_pints_again [] s = (None, s)"
| "prepare_pints_again (e # es) s =
     (case prepare_pints e s of
        (Some x, s1) \<Rightarrow> (Some x, s1)
      | (None, s1) \<Rightarrow> prepare_pints_again es s1)"

section \<open>Deviation analysis\<close>

text \<open>
  A history is the sequence of stored results of one test, oldest first. A result is
  terminal when its status is \<open>done\<close>, \<open>failed\<close> or \<open>errored\<close>; analysis reads the most
  recent terminal result.
\<close>

type_synonym history = "result list"

definition terminal :: "result \<Rightarrow> bool" where
  "terminal r =
     (r ''status'' = Some (PStr (S ''done'')) \<or> r ''status'' = Some (PStr (S ''failed'')) \<or>
      r ''status'' = Some (PStr (S ''errored'')))"

definition latest_terminal :: "history \<Rightarrow> result option" where
  "latest_terminal h = (case filter terminal h of [] \<Rightarrow> None | x # xs \<Rightarrow> Some (last (x # xs)))"

text \<open>The number a field holds; \<open>abs(value - expected)\<close> raises TypeError on a string or a list.\<close>

fun number :: "pyval \<Rightarrow> error + real" where
  "number (PInt i) = Inr (real_of_int i)"
| "number (PFloat x) = Inr x"
| "number (PStr s) = Inl TypeError"
| "number (PIntList xs) = Inl TypeError"
| "number (PFloatList xs) = Inl TypeError"

text \<open>
  Modelled from the spec: \<open>not_deviated\<close> (section 4.5), the \<open>assert_not_deviated_from\<close> that
  \<open>_analyse\<close> calls and that is not among the sources. ``Reads \<open>field\<close> from the most recent
  terminal Result in \<open>history\<close>; fails with \<open>MissingFieldError\<close> if absent from the latest
  Result. Computes \<open>abs(value - expected) <= threshold\<close>; returns true (pass) iff within
  tolerance.'' Of the two policies the spec allows for a history with no terminal result,
  this is pass by default.
\<close>

definition not_deviated :: "real \<Rightarrow> real \<Rightarrow> history \<Rightarrow> string \<Rightarrow> error + bool" where
  "not_deviated expected threshold h field =
     (case latest_terminal h of
        None \<Rightarrow> Inr True
      | Some r \<Rightarrow>
          (case r field of
             None \<Rightarrow> Inl MissingFieldError
           | Some v \<Rightarrow>
               (case number v of
                  Inl e \<Rightarrow> Inl e
                | Inr x \<Rightarrow> Inr (\<bar>x - expected\<bar> \<le> threshold))))"

text \<open>
  Modelled from the spec: how the runner surfaces what \<open>analyze\<close> does (section 7; the
  runner is not among the sources). ``Per-test failures are isolated (one test's error does
  not stop the batch); store-level and revision-resolution failures are batch-fatal.''
  ``\<open>MissingFieldError\<close>: surfaced as an analysis failure (test fails).'' \<open>Inr\<close> is the
  verdict of the test, \<open>Inl\<close> an error that leaves the batch.
\<close>

definition batch_fatal :: "error \<Rightarrow> bool" where
  "batch_fatal e = (e = StoreWriteError \<or> e = SyncError)"

definition surfaced :: "error + bool \<Rightarrow> error + bool" where
  "surfaced a =
     (case a of
        Inr passed \<Rightarrow> Inr passed
      | Inl e \<Rightarrow> if batch_fatal e then Inl e else Inr False)"

section \<open>Python ranges and slices\<close>

text \<open>\<open>list(range(start, stop, step))\<close>; a step of 0 raises ValueError.\<close>

definition range_len :: "int \<Rightarrow> int \<Rightarrow> int \<Rightarrow> nat" where
  "range_len lo hi step = (if lo < hi then nat ((hi - lo - 1) div step + 1) else 0)"

definition py_range :: "int \<Rightarrow> int \<Rightarrow> int \<Rightarrow> error + int list" where
  "py_range start stop step =
     (if step = 0 then Inl ValueError
      else if 0 < step then
        Inr (map (\<lambda>k. start + int k * step) [0..<range_len start stop step])
      else
        Inr (map (\<lambda>k. start + int k * step) [0..<range_len stop start (- step)]))"

text \<open>\<open>xs[i:j]\<close> and \<open>xs[i:]\<close>: a negative index counts from the end, and both are clipped.\<close>

definition clip_index :: "nat \<Rightarrow> int \<Rightarrow> nat" where
  "clip_index len i = (if i < 0 then nat (int len + i) else min len (nat i))"

definition py_slice :: "'a list \<Rightarrow> int \<Rightarrow> int \<Rightarrow> 'a list" where
  "py_slice xs i j =
     take (clip_index (length xs) j - clip_index (length xs) i) (drop (clip_index (length xs) i) xs)"

definition py_slice_from :: "'a list \<Rightarrow> int \<Rightarrow> 'a list" where
  "py_slice_from xs i = drop (clip_index (length xs) i) xs"

text \<open>\<open>int(n / 2)\<close> under true division: the quotient truncated towards zero.\<close>

definition int_half :: "int \<Rightarrow> int" where
  "int_half n = (if 0 \<le> n then n div 2 else - ((- n) div 2))"

section \<open>The tests' collaborators\<close>

text \<open>
  pints, numpy and matplotlib are loaded inside \<open>_run\<close> and are not part of this program; they
  sample at random and compute in floating point. What their calls return or raise is the
  environment of one run. \<open>'m\<close> is a method class of pints, \<open>'x\<close> one row of a sample array.
  \<^item> \<open>import_modules\<close>: the imports at the head of \<open>_run\<close>, with their fallbacks.
  \<^item> \<open>getattr_pints\<close>: \<open>getattr(pints, self._method)\<close> and the check of the number of
    chains after it, which only logs.
  \<^item> \<open>marginal_conditional\<close>: the toy model, the prior, the allocation of \<open>g_samples\<close>, the
    sample from the prior and its running mean and variance, for \<open>max_iter\<close> rows.
  \<^item> \<open>first_sample\<close>: the allocation of \<open>theta2_samples\<close> and its row 0, one sample from the prior.
  \<^item> \<open>successive_conditional_simulator\<close>: the method of that name, for \<open>nchains\<close> chains, at
    iteration \<open>i\<close>, from the previous row.
  \<^item> \<open>g_statistic\<close>: row \<open>i\<close> of \<open>g_samples\<close>, from both running means and variances.
  \<^item> \<open>plot_trace\<close>: \<open>pints.plot.trace([g_samples])\<close> and \<open>plt.show()\<close>.
  \<^item> \<open>mcmc_run\<close>: the log pdf, the prior, the starting points, the controller set up for
    \<open>nchains\<close> chains, \<open>n_iter\<close> iterations and the log file, and \<open>mcmc.run()\<close>.
  \<^item> \<open>weave\<close>: \<open>pfunk.weave\<close>, which is not among the sources.
  \<^item> \<open>kl_divergence\<close>, \<open>effective_sample_size\<close>: the metrics.
\<close>

record ('m, 'x) pints =
  import_modules :: "error option"
  getattr_pints :: "pystr \<Rightarrow> error + 'm"
  marginal_conditional :: "int \<Rightarrow> error + 'x list \<times> 'x list"
  first_sample :: "int \<Rightarrow> error + 'x"
  successive_conditional_simulator :: "'m \<Rightarrow> int \<Rightarrow> nat \<Rightarrow> 'x \<Rightarrow> error + 'x"
  g_statistic :: "'x list \<times> 'x list \<Rightarrow> 'x list \<Rightarrow> nat \<Rightarrow> 'x"
  plot_trace :: "'x list \<Rightarrow> error option"
  mcmc_run :: "'m \<Rightarrow> int \<Rightarrow> int \<Rightarrow> pystr \<Rightarrow> error + 'x list list"
  weave :: "'x list list \<Rightarrow> error + 'x list"
  kl_divergence :: "'x list \<Rightarrow> error + real"
  effective_sample_size :: "'x list \<Rightarrow> error + real list"

text \<open>A list comprehension over calls that may raise: the first raise ends it.\<close>

fun collect :: "('a \<Rightarrow> error + 'b) \<Rightarrow> 'a list \<Rightarrow> error + 'b list" where
  "collect f [] = Inr []"
| "collect f (x # xs) =
     (case f x of
        Inl e \<Rightarrow> Inl e
      | Inr y \<Rightarrow> (case collect f xs of Inl e \<Rightarrow> Inl e | Inr ys \<Rightarrow> Inr (y # ys)))"

section \<open>\<open>Geweke\<close>\<close>

text \<open>
  The loop \<open>for i in range(1, self._max_iter)\<close> of the successive-conditional simulator:
  \<open>theta2\<close> holds the rows \<open>0 .. i-1\<close> of \<open>theta2_samples\<close>, \<open>g_samples\<close> the rows written so
  far (row 0 is never written).
\<close>

fun successive_conditional ::
  "('m, 'x) pints \<Rightarrow> 'm \<Rightarrow> int \<Rightarrow> 'x list \<times> 'x list \<Rightarrow> nat list \<Rightarrow> 'x list \<Rightarrow> 'x list \<Rightarrow>
     error + 'x list" where
  "successive_conditional E method nchains theta1 [] theta2 g_samples = Inr g_samples"
| "successive_conditional E method nchains theta1 (i # rest) theta2 g_samples =
     (case successive_conditional_simulator E method nchains i (last theta2) of
        Inl e \<Rightarrow> Inl e
      | Inr x \<Rightarrow>
          successive_conditional E method nchains theta1 rest (theta2 @ [x])
            (g_samples @ [g_statistic E theta1 (theta2 @ [x]) i]))"

text \<open>Lines 106 to 160 of \<open>_run\<close>: from the method name to \<open>g_samples\<close>; \<open>result\<close> is not touched.\<close>

definition geweke_g_samples :: "('m, 'x) pints \<Rightarrow> testcase \<Rightarrow> error + 'x list" where
  "geweke_g_samples E self =
     (case getattr_pints E (self_method self) of
        Inl e \<Rightarrow> Inl e
      | Inr method \<Rightarrow>
          (case marginal_conditional E (self_max_iter self) of
             Inl e \<Rightarrow> Inl e
           | Inr theta1 \<Rightarrow>
               (case first_sample E (self_max_iter self) of
                  Inl e \<Rightarrow> Inl e
                | Inr x0 \<Rightarrow>
                    successive_conditional E method (self_nchains self) theta1
                      [1..<nat (self_max_iter self)] [x0] [])))"

text \<open>
  \<open>Geweke._run(result, log_path)\<close>: the exception it raises, if any, and \<open>result\<close> as it
  leaves it.
\<close>

definition Geweke_run ::
  "('m, 'x) pints \<Rightarrow> testcase \<Rightarrow> result \<Rightarrow> pystr \<Rightarrow> error option \<times> result" where
  "Geweke_run E self result log_path =
     (case import_modules E of
        Some e \<Rightarrow> (Some e, result)
      | None \<Rightarrow>
          (let result1 = result(''method'' \<mapsto> PStr (self_method self)) in
           case geweke_g_samples E self of
             Inl e \<Rightarrow> (Some e, result1)
           | Inr g_samples \<Rightarrow>
               (case plot_trace E g_samples of
                  Some e \<Rightarrow> (Some e, result1)
                | None \<Rightarrow>
                    (None, result1(''p-value'' \<mapsto> PInt 0, ''status'' \<mapsto> PStr (S ''done''))))))"

definition Geweke_analyse :: "testcase \<Rightarrow> history \<Rightarrow> error + bool" where
  "Geweke_analyse self results = not_deviated 0 (self_pass_threshold self) results ''kld''"

section \<open>\<open>MCMCBanana\<close>\<close>

text \<open>Lines 72 to 118 of \<open>_run\<close>: from the method name to the woven chain.\<close>

definition banana_chain :: "('m, 'x) pints \<Rightarrow> testcase \<Rightarrow> pystr \<Rightarrow> error + 'x list" where
  "banana_chain E self log_path =
     (case getattr_pints E (self_method self) of
        Inl e \<Rightarrow> Inl e
      | Inr method \<Rightarrow>
          (case mcmc_run E method (self_nchains self) (self_max_iter self) log_path of
             Inl e \<Rightarrow> Inl e
           | Inr mcmc_chains \<Rightarrow> weave E mcmc_chains))"

definition MCMCBanana_run ::
  "('m, 'x) pints \<Rightarrow> testcase \<Rightarrow> result \<Rightarrow> pystr \<Rightarrow> error option \<times> result" where
  "MCMCBanana_run E self result log_path =
     (case import_modules E of
        Some e \<Rightarrow> (Some e, result)
      | None \<Rightarrow>
          (let result1 = result(''method'' \<mapsto> PStr (self_method self)) in
           case banana_chain E self log_path of
             Inl e \<Rightarrow> (Some e, result1)
           | Inr chain \<Rightarrow>
               (let n_burn = int_half (self_max_iter self);
                    n_samples = int (length chain);
                    n_window = 500 * self_nchains self;
                    n_jump = 20 * self_nchains self
                in
                case py_range 0 (n_samples - n_window + n_jump) n_jump of
                  Inl e \<Rightarrow> (Some e, result1)
                | Inr iters \<Rightarrow>
                    (let result2 = result1(''iters'' \<mapsto> PIntList iters) in
                     case collect (\<lambda>i. kl_divergence E (py_slice chain i (i + n_window))) iters of
                       Inl e \<Rightarrow> (Some e, result2)
                     | Inr klds \<Rightarrow>
                         (let result3 = result2(''klds'' \<mapsto> PFloatList klds);
                              chain1 = py_slice_from chain (n_burn * self_nchains self)
                          in
                          case kl_divergence E chain1 of
                            Inl e \<Rightarrow> (Some e, result3)
                          | Inr kld \<Rightarrow>
                              (let result4 = result3(''kld'' \<mapsto> PFloat kld) in
                               case effective_sample_size E chain1 of
                                 Inl e \<Rightarrow> (Some e, result4)
                               | Inr ess \<Rightarrow>
                                   (None,
                                    result4(''ess'' \<mapsto> PFloatList ess,
                                            ''status'' \<mapsto> PStr (S ''done'')))))))))"

definition MCMCBanana_analyse :: "testcase \<Rightarrow> history \<Rightarrow> error + bool" where
  "MCMCBanana_analyse self results = not_deviated 0 (self_pass_threshold self) results ''kld''"


section \<open>Example inputs\<close>

text \<open>
  The state of the module when it has just been loaded, and an environment in which every
  call of a collaborator returns: each chain holds \<open>n_iter\<close> samples, weaving
  concatenates, and the metrics are functions of the number of samples.
\<close>

definition loaded :: pfunk_state where
  "loaded = \<lparr> PINTS_COMMIT = None, PINTS_VERSION = None, sys_path = [], calls = [] \<rparr>"

definition returning_repo :: "pystr \<Rightarrow> pystr \<Rightarrow> revision_env" where
  "returning_repo commit version =
     \<lparr> DIR_PINTS_REPO = S ''/pfunk/pints'', DIR_PINTS_MODULE = S ''/pfunk/pints/pints'',
       git_pints_refresh = None, git_pints_hash = Inr commit,
       import_pints = Inr (S ''/pfunk/pints/pints''), pints_version = Inr version \<rparr>"

definition returning_pints :: "(unit, real) pints" where
  "returning_pints =
     \<lparr> import_modules = None,
       getattr_pints = (\<lambda>name. Inr ()),
       marginal_conditional = (\<lambda>n. Inr ([], [])),
       first_sample = (\<lambda>n. Inr 0),
       successive_conditional_simulator = (\<lambda>method nchains i x. Inr (x + 1)),
       g_statistic = (\<lambda>theta1 theta2 i. last theta2),
       plot_trace = (\<lambda>g_samples. None),
       mcmc_run = (\<lambda>method nchains n_iter log_path. Inr [replicate (nat n_iter) 0]),
       weave = (\<lambda>cs. Inr (concat cs)),
       kl_divergence = (\<lambda>samples. Inr (real (length samples) / 10000)),
       effective_sample_size = (\<lambda>samples. Inr [real (length samples)]) \<rparr>"

section \<open>Properties of names\<close>

lemma undigits_snoc: "undigits (cs @ [c]) = 10 * undigits cs + (c - 48)"
  by (simp add: undigits_def)

lemma undigits_digits: "undigits (digits n) = n"
proof (induction n rule: digits.induct)
  case (1 n)
  show ?case
  proof (cases "n < 10")
    case True
    then show ?thesis
      by (subst digits.simps) (simp add: undigits_def digit_char_def)
  next
    case False
    with 1 have "undigits (digits (n div 10)) = n div 10" by simp
    with False show ?thesis
      by (subst digits.simps) (simp add: undigits_snoc digit_char_def)
  qed
qed

lemma digits_inj: "digits m = digits n \<Longrightarrow> m = n"
  by (metis undigits_digits)

lemma digits_range: "c \<in> set (digits n) \<Longrightarrow> 48 \<le> c \<and> c \<le> 57"
proof (induction n rule: digits.induct)
  case (1 n)
  show ?case
  proof (cases "n < 10")
    case True
    with "1.prems" show ?thesis
      by (subst (asm) digits.simps) (simp add: digit_char_def)
  next
    case False
    from "1.prems" False
    have "c \<in> set (digits (n div 10)) \<or> c = digit_char (n mod 10)"
      by (subst (asm) digits.simps) auto
    then show ?thesis
    proof
      assume "c \<in> set (digits (n div 10))"
      with 1 False show ?thesis by simp
    next
      assume "c = digit_char (n mod 10)"
      moreover have "n mod 10 < 10" by simp
      ultimately show ?thesis by (simp add: digit_char_def)
    qed
  qed
qed

lemma digits_no_minus: "45 \<notin> set (digits n)"
  using digits_range [of 45 n] by auto

lemma digits_nonempty: "digits n \<noteq> []"
  by (subst digits.simps) simp

lemma hd_digits: "hd (digits n) \<noteq> 45"
  using digits_no_minus [of n] digits_nonempty [of n]
  by (cases "digits n") auto

lemma str_int_inj: "str_int i = str_int j \<Longrightarrow> i = j"
proof -
  assume eq: "str_int i = str_int j"
  consider "i < 0" "j < 0" | "i < 0" "\<not> j < 0" | "\<not> i < 0" "j < 0" | "\<not> i < 0" "\<not> j < 0"
    by blast
  then show ?thesis
  proof cases
    case 1
    with eq have "digits (nat (- i)) = digits (nat (- j))" by (simp add: str_int_def)
    then have "nat (- i) = nat (- j)" by (rule digits_inj)
    with 1 show ?thesis by simp
  next
    case 2
    with eq have "45 # digits (nat (- i)) = digits (nat j)" by (simp add: str_int_def)
    then have "hd (digits (nat j)) = 45" by (metis list.sel(1))
    with hd_digits show ?thesis by blast
  next
    case 3
    with eq have "digits (nat i) = 45 # digits (nat (- j))" by (simp add: str_int_def)
    then have "hd (digits (nat i)) = 45" by (metis list.sel(1))
    with hd_digits show ?thesis by blast
  next
    case 4
    with eq have "digits (nat i) = digits (nat j)" by (simp add: str_int_def)
    then have "nat i = nat j" by (rule digits_inj)
    with 4 show ?thesis by simp
  qed
qed

lemma str_int_no_underscore: "95 \<notin> set (str_int i)"
  using digits_range [of 95] by (auto simp: str_int_def)

lemma split_at_last_sep:
  assumes "m1 @ c # s1 = m2 @ c # s2" and "c \<notin> set s1" and "c \<notin> set s2"
  shows "m1 = m2 \<and> s1 = s2"
  using assms
proof (induction m1 arbitrary: m2)
  case Nil
  then show ?case by (cases m2) auto
next
  case (Cons a m1)
  then show ?case by (cases m2) auto
qed

lemma name_parts_inj:
  assumes "p @ m1 @ S ''_'' @ str_int n1 = p @ m2 @ S ''_'' @ str_int n2"
  shows "m1 = m2 \<and> n1 = n2"
proof -
  from assms have "m1 @ 95 # str_int n1 = m2 @ 95 # str_int n2" by simp
  then have "m1 = m2 \<and> str_int n1 = str_int n2"
    by (rule split_at_last_sep) (rule str_int_no_underscore)+
  then show ?thesis by (auto dest: str_int_inj)
qed

text \<open>
  C5. Two Geweke instances with the same computed name, and two MCMCBanana instances with
  the same computed name, have the same method and the same number of chains: the name
  \<open>prefix + method + '_' + str(nchains)\<close> determines both, because the decimal rendering
  of an integer contains no underscore and is injective.
\<close>

theorem same_name_same_experiment:
  "(self_name (Geweke_init m1 n1 p1 i1) = self_name (Geweke_init m2 n2 p2 i2) \<longrightarrow>
      self_method (Geweke_init m1 n1 p1 i1) = self_method (Geweke_init m2 n2 p2 i2) \<and>
      self_nchains (Geweke_init m1 n1 p1 i1) = self_nchains (Geweke_init m2 n2 p2 i2) \<and>
      m1 = m2 \<and> n1 = n2) \<and>
   (self_name (MCMCBanana_init m1 n1 p1 i1) = self_name (MCMCBanana_init m2 n2 p2 i2) \<longrightarrow>
      self_method (MCMCBanana_init m1 n1 p1 i1) = self_method (MCMCBanana_init m2 n2 p2 i2) \<and>
      self_nchains (MCMCBanana_init m1 n1 p1 i1) = self_nchains (MCMCBanana_init m2 n2 p2 i2) \<and>
      m1 = m2 \<and> n1 = n2)"
  using name_parts_inj [of "S ''geweke_mcmc''" m1 n1 m2 n2]
        name_parts_inj [of "S ''mcmc_banana_''" m1 n1 m2 n2]
  by (simp add: Geweke_init_def MCMCBanana_init_def Geweke_name_def MCMCBanana_name_def)

theorem same_name_same_experiment_witness:
  "self_name (Geweke_init (S ''M'') 3 0.1 200) = self_name (Geweke_init (S ''M'') 3 0.5 100) \<and>
   self_method (Geweke_init (S ''M'') 3 0.1 200) = self_method (Geweke_init (S ''M'') 3 0.5 100) \<and>
   self_nchains (Geweke_init (S ''M'') 3 0.1 200) = self_nchains (Geweke_init (S ''M'') 3 0.5 100) \<and>
   self_name (MCMCBanana_init (S ''M'') 3 0.1 200) = self_name (MCMCBanana_init (S ''M'') 3 0.5 100) \<and>
   self_method (MCMCBanana_init (S ''M'') 3 0.1 200) = self_method (MCMCBanana_init (S ''M'') 3 0.5 100) \<and>
   self_nchains (MCMCBanana_init (S ''M'') 3 0.1 200) = self_nchains (MCMCBanana_init (S ''M'') 3 0.5 100)"
proof -
  have g: "self_name (Geweke_init (S ''M'') 3 0.1 200) = self_name (Geweke_init (S ''M'') 3 0.5 100)"
    by (simp add: Geweke_init_def)
  have b: "self_name (MCMCBanana_init (S ''M'') 3 0.1 200) = self_name (MCMCBanana_init (S ''M'') 3 0.5 100)"
    by (simp add: MCMCBanana_init_def)
  from g b same_name_same_experiment [of "S ''M''" 3 "0.1" 200 "S ''M''" 3 "0.5" 100]
  show ?thesis by blast
qed

section \<open>Properties of name validation\<close>





section \<open>Properties of \<open>date\<close>\<close>

lemma digit_class_digit_char: "d < 10 \<Longrightarrow> digit_class (digit_char d)"
  by (simp add: digit_class_def digit_char_def)

lemma digits_1: "n < 10 \<Longrightarrow> digits n = [digit_char n]"
  by (subst digits.simps) simp

lemma digits_2: "10 \<le> n \<Longrightarrow> n < 100 \<Longrightarrow> digits n = [digit_char (n div 10), digit_char (n mod 10)]"
  by (subst digits.simps) (simp add: digits_1)

lemma digits_3: "100 \<le> n \<Longrightarrow> n < 1000 \<Longrightarrow>
    digits n = [digit_char (n div 100), digit_char (n div 10 mod 10), digit_char (n mod 10)]"
  by (subst digits.simps) (simp add: digits_2 div_mult2_eq [symmetric])

lemma digits_4: "1000 \<le> n \<Longrightarrow> n < 10000 \<Longrightarrow>
    digits n = [digit_char (n div 1000), digit_char (n div 100 mod 10),
                digit_char (n div 10 mod 10), digit_char (n mod 10)]"
  by (subst digits.simps) (simp add: digits_3 div_mult2_eq [symmetric])

lemma shaped_year:
  assumes "1000 \<le> y" "y \<le> 9999"
  shows "\<exists>a b c d. str_int y = [a, b, c, d] \<and> digit_class a \<and> digit_class b \<and> digit_class c \<and> digit_class d"
proof -
  let ?n = "nat y"
  from assms have n: "1000 \<le> ?n" "?n < 10000" by auto
  then have "?n div 1000 < 10" by auto
  with n assms show ?thesis
    by (simp add: str_int_def digits_4 digit_class_digit_char)
qed

lemma shaped_pad2:
  assumes "0 \<le> n" "n \<le> 99"
  shows "\<exists>a b. pad2 n = [a, b] \<and> digit_class a \<and> digit_class b"
proof (cases "n < 10")
  case True
  with assms show ?thesis
    by (simp add: pad2_def str_int_def digits_1 digit_class_def digit_char_def)
next
  case False
  let ?n = "nat n"
  from False assms have n: "10 \<le> ?n" "?n < 100" by auto
  then have "?n div 10 < 10" by auto
  with n False assms show ?thesis
    by (simp add: pad2_def str_int_def digits_2 digit_class_digit_char)
qed

lemma format_DATE_FORMAT:
  "format_tm DATE_FORMAT t =
     str_int (tm_year t) @ 45 # pad2 (tm_mon t) @ 45 # pad2 (tm_mday t) @ 45 #
     pad2 (tm_hour t) @ 58 # pad2 (tm_min t) @ 58 # pad2 (tm_sec t)"
  by (simp add: DATE_FORMAT_def directive_def)

lemma checktm_time_value: "time_value t \<Longrightarrow> checktm t = Inr t"
  by (simp add: time_value_def checktm_def)

lemma run_date_format_time:
  assumes "time_value t" "1000 \<le> tm_year t" "tm_year t \<le> 9999"
  shows "run_date_format (format_tm DATE_FORMAT t)"
proof -
  from assms obtain y1 y2 y3 y4 where y: "str_int (tm_year t) = [y1, y2, y3, y4]"
    "digit_class y1" "digit_class y2" "digit_class y3" "digit_class y4"
    using shaped_year by blast
  from assms obtain m1 m2 where m: "pad2 (tm_mon t) = [m1, m2]" "digit_class m1" "digit_class m2"
    using shaped_pad2 [of "tm_mon t"] by (auto simp: time_value_def)
  from assms obtain d1 d2 where d: "pad2 (tm_mday t) = [d1, d2]" "digit_class d1" "digit_class d2"
    using shaped_pad2 [of "tm_mday t"] by (auto simp: time_value_def)
  from assms obtain h1 h2 where h: "pad2 (tm_hour t) = [h1, h2]" "digit_class h1" "digit_class h2"
    using shaped_pad2 [of "tm_hour t"] by (auto simp: time_value_def)
  from assms obtain n1 n2 where n: "pad2 (tm_min t) = [n1, n2]" "digit_class n1" "digit_class n2"
    using shaped_pad2 [of "tm_min t"] by (auto simp: time_value_def)
  from assms obtain s1 s2 where s: "pad2 (tm_sec t) = [s1, s2]" "digit_class s1" "digit_class s2"
    using shaped_pad2 [of "tm_sec t"] by (auto simp: time_value_def)
  show ?thesis
    by (simp add: run_date_format_def format_DATE_FORMAT y m d h n s)
qed

text \<open>
  C8, as amended. For every time value whose year has four digits (1000 to 9999),
  \<open>date(when)\<close> returns \<open>when\<close> formatted by \<open>%Y-%m-%d-%H:%M:%S\<close>, a string of the shape
  \<open>YYYY-MM-DD-HH:MM:SS\<close>; with no argument it returns the current time formatted so.
\<close>

theorem date_run_date_format:
  assumes "time_value t" and "1000 \<le> tm_year t" and "tm_year t \<le> 9999"
  shows "date now (Some t) = Inr (format_tm DATE_FORMAT t) \<and>
         date t None = Inr (format_tm DATE_FORMAT t) \<and>
         run_date_format (format_tm DATE_FORMAT t)"
  using assms run_date_format_time [of t]
  by (simp add: date_def strftime_def checktm_time_value)

theorem date_run_date_format_witness:
  "time_value \<lparr>tm_year=2018,tm_mon=3,tm_mday=7,tm_hour=9,tm_min=5,tm_sec=2,tm_wday=2,tm_yday=66,tm_isdst=0\<rparr> \<and>
   date \<lparr>tm_year=2018,tm_mon=3,tm_mday=7,tm_hour=9,tm_min=5,tm_sec=2,tm_wday=2,tm_yday=66,tm_isdst=0\<rparr> None
     = Inr (S ''2018-03-07-09:05:02'') \<and>
   run_date_format (S ''2018-03-07-09:05:02'')"
proof -
  let ?t = "\<lparr>tm_year=2018,tm_mon=3,tm_mday=7,tm_hour=9,tm_min=5,tm_sec=2,tm_wday=2,tm_yday=66,tm_isdst=0\<rparr>"
  have tv: "time_value ?t" by (simp add: time_value_def)
  have f: "format_tm DATE_FORMAT ?t = S ''2018-03-07-09:05:02''"
    by (simp add: DATE_FORMAT_def directive_def pad2_def str_int_def digits.simps digit_char_def)
  from tv date_run_date_format [of ?t ?t] f show ?thesis by simp
qed

text \<open>
  C8 as stated fails for a year of five digits: the year 10000 is formatted as
  \<open>10000-01-01-00:00:00\<close>, which is not of the shape \<open>YYYY-MM-DD-HH:MM:SS\<close>.
\<close>

theorem date_year_10000_counterexample:
  "date \<lparr>tm_year=2018,tm_mon=3,tm_mday=7,tm_hour=9,tm_min=5,tm_sec=2,tm_wday=2,tm_yday=66,tm_isdst=0\<rparr>
     (Some \<lparr>tm_year=10000,tm_mon=1,tm_mday=1,tm_hour=0,tm_min=0,tm_sec=0,tm_wday=5,tm_yday=1,tm_isdst=0\<rparr>)
     = Inr (S ''10000-01-01-00:00:00'') \<and>
   \<not> run_date_format (S ''10000-01-01-00:00:00'')"
  by (simp add: date_def strftime_def checktm_def DATE_FORMAT_def directive_def pad2_def
      str_int_def digits.simps digit_char_def run_date_format_def digit_class_def)

section \<open>Properties of \<open>prepare_pints\<close>\<close>

lemma ensure_commit_set: "PINTS_COMMIT s \<noteq> None \<Longrightarrow> ensure_commit e s = (None, s)"
  by (auto simp: ensure_commit_def)

lemma ensure_version_set: "PINTS_VERSION s \<noteq> None \<Longrightarrow> ensure_version e s = (None, s)"
  by (auto simp: ensure_version_def)

lemma prepare_pints_set:
  "PINTS_COMMIT s \<noteq> None \<Longrightarrow> PINTS_VERSION s \<noteq> None \<Longrightarrow> prepare_pints e s = (None, s)"
  by (simp add: prepare_pints_def ensure_commit_set ensure_version_set)

lemma ensure_commit_sets:
  "ensure_commit e s = (None, s1) \<Longrightarrow> PINTS_COMMIT s1 \<noteq> None \<and> PINTS_VERSION s1 = PINTS_VERSION s"
  by (auto simp: ensure_commit_def did_def split: if_splits option.splits sum.splits)

lemma ensure_version_sets:
  "ensure_version e s = (None, s1) \<Longrightarrow> PINTS_VERSION s1 \<noteq> None \<and> PINTS_COMMIT s1 = PINTS_COMMIT s"
  by (auto simp: ensure_version_def did_def Let_def split: if_splits option.splits sum.splits)

lemma prepare_pints_sets:
  assumes "prepare_pints e s = (None, s1)"
  shows "PINTS_COMMIT s1 \<noteq> None \<and> PINTS_VERSION s1 \<noteq> None"
proof -
  from assms obtain s' where c: "ensure_commit e s = (None, s')"
    and v: "ensure_version e s' = (None, s1)"
    by (auto simp: prepare_pints_def split: prod.splits option.splits)
  from ensure_commit_sets [OF c] ensure_version_sets [OF v] show ?thesis by simp
qed

lemma prepare_pints_again_set:
  "PINTS_COMMIT s \<noteq> None \<Longrightarrow> PINTS_VERSION s \<noteq> None \<Longrightarrow> prepare_pints_again es s = (None, s)"
  by (induction es) (simp_all add: prepare_pints_set)

text \<open>
  C7. After a call of \<open>prepare_pints\<close> that returned, every later call, whatever the git
  layer and pints would answer, returns and leaves the whole state as it was:
  \<open>PINTS_COMMIT\<close> and \<open>PINTS_VERSION\<close> keep their values, \<open>sys.path\<close> is untouched and no
  call is made to refresh the checkout, to read its hash, to import pints or to read its
  version.
\<close>

theorem prepare_pints_init_once:
  assumes "prepare_pints e s = (None, s1)"
  shows "prepare_pints e' s1 = (None, s1) \<and> prepare_pints_again es s1 = (None, s1) \<and>
         PINTS_COMMIT s1 \<noteq> None \<and> PINTS_VERSION s1 \<noteq> None"
  using prepare_pints_sets [OF assms]
  by (simp add: prepare_pints_set prepare_pints_again_set)

theorem prepare_pints_init_once_witness:
  "prepare_pints (returning_repo (S ''abc123'') (S ''0.1.0'')) loaded =
     (None, \<lparr> PINTS_COMMIT = Some (S ''abc123''), PINTS_VERSION = Some (S ''0.1.0''),
              sys_path = [S ''/pfunk/pints''],
              calls = [Git_pints_refresh, Git_pints_hash, Import_pints, Pints_version] \<rparr>) \<and>
   prepare_pints ((returning_repo (S ''def456'') (S ''0.2.0''))\<lparr> git_pints_refresh := Some SyncError \<rparr>)
     \<lparr> PINTS_COMMIT = Some (S ''abc123''), PINTS_VERSION = Some (S ''0.1.0''),
       sys_path = [S ''/pfunk/pints''],
       calls = [Git_pints_refresh, Git_pints_hash, Import_pints, Pints_version] \<rparr> =
     (None, \<lparr> PINTS_COMMIT = Some (S ''abc123''), PINTS_VERSION = Some (S ''0.1.0''),
              sys_path = [S ''/pfunk/pints''],
              calls = [Git_pints_refresh, Git_pints_hash, Import_pints, Pints_version] \<rparr>)"
proof -
  let ?s1 = "\<lparr> PINTS_COMMIT = Some (S ''abc123''), PINTS_VERSION = Some (S ''0.1.0''),
              sys_path = [S ''/pfunk/pints''],
              calls = [Git_pints_refresh, Git_pints_hash, Import_pints, Pints_version] \<rparr>"
  have first: "prepare_pints (returning_repo (S ''abc123'') (S ''0.1.0'')) loaded = (None, ?s1)"
    by (simp add: prepare_pints_def ensure_commit_def ensure_version_def returning_repo_def
        loaded_def did_def)
  from prepare_pints_init_once [OF first,
      of "(returning_repo (S ''def456'') (S ''0.2.0''))\<lparr> git_pints_refresh := Some SyncError \<rparr>" "[]"] first
  show ?thesis by simp
qed

section \<open>Properties of deviation analysis\<close>

text \<open>
  C2. When the latest terminal result of the history holds the field with the number \<open>x\<close>,
  \<open>not_deviated\<close> returns whether \<open>abs(x - expected) <= threshold\<close>.
\<close>

theorem not_deviated_iff:
  assumes "latest_terminal h = Some r" and "r field = Some v" and "number v = Inr x"
  shows "not_deviated expected threshold h field = Inr (\<bar>x - expected\<bar> \<le> threshold)"
  using assms by (simp add: not_deviated_def)

theorem not_deviated_iff_witness:
  "latest_terminal [[''status'' \<mapsto> PStr (S ''done''), ''kld'' \<mapsto> PFloat 0.2],
                    [''status'' \<mapsto> PStr (S ''done''), ''kld'' \<mapsto> PFloat 0.05]]
     = Some [''status'' \<mapsto> PStr (S ''done''), ''kld'' \<mapsto> PFloat 0.05] \<and>
   not_deviated 0 0.1 [[''status'' \<mapsto> PStr (S ''done''), ''kld'' \<mapsto> PFloat 0.2],
                       [''status'' \<mapsto> PStr (S ''done''), ''kld'' \<mapsto> PFloat 0.05]] ''kld'' = Inr True \<and>
   latest_terminal [[''status'' \<mapsto> PStr (S ''done''), ''kld'' \<mapsto> PFloat 0.05],
                    [''status'' \<mapsto> PStr (S ''done''), ''kld'' \<mapsto> PFloat 0.2]]
     = Some [''status'' \<mapsto> PStr (S ''done''), ''kld'' \<mapsto> PFloat 0.2] \<and>
   not_deviated 0 0.1 [[''status'' \<mapsto> PStr (S ''done''), ''kld'' \<mapsto> PFloat 0.05],
                       [''status'' \<mapsto> PStr (S ''done''), ''kld'' \<mapsto> PFloat 0.2]] ''kld'' = Inr False"
proof -
  let ?a = "[''status'' \<mapsto> PStr (S ''done''), ''kld'' \<mapsto> PFloat 0.05]"
  let ?b = "[''status'' \<mapsto> PStr (S ''done''), ''kld'' \<mapsto> PFloat 0.2]"
  have ta: "terminal ?a" and tb: "terminal ?b" by (simp_all add: terminal_def)
  have la: "latest_terminal [?b, ?a] = Some ?a" using ta tb by (simp add: latest_terminal_def)
  have lb: "latest_terminal [?a, ?b] = Some ?b" using ta tb by (simp add: latest_terminal_def)
  have fa: "?a ''kld'' = Some (PFloat 0.05)" by simp
  have fb: "?b ''kld'' = Some (PFloat 0.2)" by simp
  have na: "number (PFloat 0.05) = Inr 0.05" and nb: "number (PFloat 0.2) = Inr 0.2" by simp_all
  from not_deviated_iff [OF la fa na, of 0 "0.1"] not_deviated_iff [OF lb fb nb, of 0 "0.1"] la lb
  show ?thesis by simp
qed

text \<open>
  C3. When the latest terminal result of the history does not hold the field,
  \<open>not_deviated\<close> fails with \<open>MissingFieldError\<close>, and the runner surfaces that as a failed
  test, not as an error that leaves the batch.
\<close>

theorem not_deviated_missing_field:
  assumes "latest_terminal h = Some r" and "r field = None"
  shows "not_deviated expected threshold h field = Inl MissingFieldError \<and>
         surfaced (not_deviated expected threshold h field) = Inr False"
  using assms by (simp add: not_deviated_def surfaced_def batch_fatal_def)

theorem not_deviated_missing_field_witness:
  "latest_terminal [[''status'' \<mapsto> PStr (S ''done''), ''kld'' \<mapsto> PFloat 0.05],
                    [''status'' \<mapsto> PStr (S ''done''), ''ess'' \<mapsto> PFloatList [270]]]
     = Some [''status'' \<mapsto> PStr (S ''done''), ''ess'' \<mapsto> PFloatList [270]] \<and>
   [''status'' \<mapsto> PStr (S ''done''), ''ess'' \<mapsto> PFloatList [270]] ''kld'' = None \<and>
   not_deviated 0 0.1 [[''status'' \<mapsto> PStr (S ''done''), ''kld'' \<mapsto> PFloat 0.05],
                       [''status'' \<mapsto> PStr (S ''done''), ''ess'' \<mapsto> PFloatList [270]]] ''kld''
     = Inl MissingFieldError \<and>
   surfaced (not_deviated 0 0.1 [[''status'' \<mapsto> PStr (S ''done''), ''kld'' \<mapsto> PFloat 0.05],
                       [''status'' \<mapsto> PStr (S ''done''), ''ess'' \<mapsto> PFloatList [270]]] ''kld'')
     = Inr False"
proof -
  let ?a = "[''status'' \<mapsto> PStr (S ''done''), ''kld'' \<mapsto> PFloat 0.05]"
  let ?b = "[''status'' \<mapsto> PStr (S ''done''), ''ess'' \<mapsto> PFloatList [270]]"
  have ta: "terminal ?a" and tb: "terminal ?b" by (simp_all add: terminal_def)
  have lb: "latest_terminal [?a, ?b] = Some ?b" using ta tb by (simp add: latest_terminal_def)
  have fb: "?b ''kld'' = None" by simp
  from not_deviated_missing_field [OF lb fb, of 0 "0.1"] lb fb
  show ?thesis by (simp add: surfaced_def batch_fatal_def)
qed

section \<open>Properties of the runs\<close>

lemma Geweke_run_returns:
  assumes "Geweke_run E self result log_path = (None, r)"
  shows "r = result(''method'' \<mapsto> PStr (self_method self), ''p-value'' \<mapsto> PInt 0,
                     ''status'' \<mapsto> PStr (S ''done''))"
  using assms
  by (auto simp: Geweke_run_def Let_def split: option.splits sum.splits)





lemma MCMCBanana_run_returns:
  assumes "MCMCBanana_run E self result log_path = (None, r)"
  shows "\<exists>chain iters klds kld ess.
           banana_chain E self log_path = Inr chain \<and>
           py_range 0 (int (length chain) - 500 * self_nchains self + 20 * self_nchains self)
             (20 * self_nchains self) = Inr iters \<and>
           collect (\<lambda>i. kl_divergence E (py_slice chain i (i + 500 * self_nchains self))) iters
             = Inr klds \<and>
           r = result(''method'' \<mapsto> PStr (self_method self), ''iters'' \<mapsto> PIntList iters,
                      ''klds'' \<mapsto> PFloatList klds, ''kld'' \<mapsto> PFloat kld,
                      ''ess'' \<mapsto> PFloatList ess, ''status'' \<mapsto> PStr (S ''done''))"
  using assms
  by (auto simp: MCMCBanana_run_def Let_def split: option.splits sum.splits)

lemma Geweke_run_example:
  "Geweke_run returning_pints (Geweke_init (S ''AdaptiveCovarianceMCMC'') 1 0.1 3) Map.empty (S ''log'')
     = (None, [''method'' \<mapsto> PStr (S ''AdaptiveCovarianceMCMC''), ''p-value'' \<mapsto> PInt 0,
               ''status'' \<mapsto> PStr (S ''done'')])"
  by (simp add: Geweke_run_def geweke_g_samples_def returning_pints_def Geweke_init_def upt_rec)

lemma MCMCBanana_run_example:
  "MCMCBanana_run returning_pints (MCMCBanana_init (S ''AdaptiveCovarianceMCMC'') 1 0.1 540)
     Map.empty (S ''log'')
   = (None, [''method'' \<mapsto> PStr (S ''AdaptiveCovarianceMCMC''), ''iters'' \<mapsto> PIntList [0, 20, 40],
             ''klds'' \<mapsto> PFloatList [0.05, 0.05, 0.05], ''kld'' \<mapsto> PFloat 0.027,
             ''ess'' \<mapsto> PFloatList [270], ''status'' \<mapsto> PStr (S ''done'')])"
  by (simp add: MCMCBanana_run_def Let_def banana_chain_def returning_pints_def MCMCBanana_init_def
      py_range_def range_len_def upt_rec py_slice_def py_slice_from_def clip_index_def int_half_def)


text \<open>
  C1. A run of \<open>Geweke._run\<close> that returns leaves \<open>kld\<close> unset, and \<open>Geweke._analyse\<close>, which
  reads \<open>kld\<close>, then fails with \<open>MissingFieldError\<close>: here for the method
  \<open>AdaptiveCovarianceMCMC\<close>, one chain, three iterations and a fresh \<open>result\<close>.
\<close>

theorem Geweke_run_leaves_kld_unset:
  "Geweke_run returning_pints (Geweke_init (S ''AdaptiveCovarianceMCMC'') 1 0.1 3) Map.empty (S ''log'')
     = (None, [''method'' \<mapsto> PStr (S ''AdaptiveCovarianceMCMC''), ''p-value'' \<mapsto> PInt 0,
               ''status'' \<mapsto> PStr (S ''done'')]) \<and>
   [''method'' \<mapsto> PStr (S ''AdaptiveCovarianceMCMC''), ''p-value'' \<mapsto> PInt 0,
    ''status'' \<mapsto> PStr (S ''done'')] ''kld'' = None \<and>
   Geweke_analyse (Geweke_init (S ''AdaptiveCovarianceMCMC'') 1 0.1 3)
     [[''method'' \<mapsto> PStr (S ''AdaptiveCovarianceMCMC''), ''p-value'' \<mapsto> PInt 0,
       ''status'' \<mapsto> PStr (S ''done'')]] = Inl MissingFieldError"
proof -
  let ?self = "Geweke_init (S ''AdaptiveCovarianceMCMC'') 1 0.1 3"
  let ?r = "[''method'' \<mapsto> PStr (S ''AdaptiveCovarianceMCMC''), ''p-value'' \<mapsto> PInt 0,
             ''status'' \<mapsto> PStr (S ''done'')]"
  have k: "?r ''kld'' = None" by simp
  have t: "terminal ?r" by (simp add: terminal_def)
  have a: "Geweke_analyse ?self [?r] = Inl MissingFieldError"
    using t by (simp add: Geweke_analyse_def not_deviated_def latest_terminal_def)
  from Geweke_run_example k a show ?thesis by blast
qed

text \<open>
  C6. When \<open>Geweke._run\<close> or \<open>MCMCBanana._run\<close> returns without raising, \<open>result['status']\<close>
  is \<open>'done'\<close>.
\<close>

theorem run_ends_done:
  "(Geweke_run E self result log_path = (None, r) \<longrightarrow> r ''status'' = Some (PStr (S ''done''))) \<and>
   (MCMCBanana_run E self result log_path = (None, r) \<longrightarrow> r ''status'' = Some (PStr (S ''done'')))"
proof (intro conjI impI)
  assume "Geweke_run E self result log_path = (None, r)"
  from Geweke_run_returns [OF this] show "r ''status'' = Some (PStr (S ''done''))" by simp
next
  assume "MCMCBanana_run E self result log_path = (None, r)"
  from MCMCBanana_run_returns [OF this] show "r ''status'' = Some (PStr (S ''done''))" by auto
qed

theorem run_ends_done_witness:
  "Geweke_run returning_pints (Geweke_init (S ''AdaptiveCovarianceMCMC'') 1 0.1 3) Map.empty (S ''log'')
     = (None, [''method'' \<mapsto> PStr (S ''AdaptiveCovarianceMCMC''), ''p-value'' \<mapsto> PInt 0,
               ''status'' \<mapsto> PStr (S ''done'')]) \<and>
   [''method'' \<mapsto> PStr (S ''AdaptiveCovarianceMCMC''), ''p-value'' \<mapsto> PInt 0,
    ''status'' \<mapsto> PStr (S ''done'')] ''status'' = Some (PStr (S ''done'')) \<and>
   MCMCBanana_run returning_pints (MCMCBanana_init (S ''AdaptiveCovarianceMCMC'') 1 0.1 540)
     Map.empty (S ''log'')
   = (None, [''method'' \<mapsto> PStr (S ''AdaptiveCovarianceMCMC''), ''iters'' \<mapsto> PIntList [0, 20, 40],
             ''klds'' \<mapsto> PFloatList [0.05, 0.05, 0.05], ''kld'' \<mapsto> PFloat 0.027,
             ''ess'' \<mapsto> PFloatList [270], ''status'' \<mapsto> PStr (S ''done'')]) \<and>
   [''method'' \<mapsto> PStr (S ''AdaptiveCovarianceMCMC''), ''iters'' \<mapsto> PIntList [0, 20, 40],
    ''klds'' \<mapsto> PFloatList [0.05, 0.05, 0.05], ''kld'' \<mapsto> PFloat 0.027,
    ''ess'' \<mapsto> PFloatList [270], ''status'' \<mapsto> PStr (S ''done'')] ''status''
   = Some (PStr (S ''done''))"
proof -
  let ?rg = "[''method'' \<mapsto> PStr (S ''AdaptiveCovarianceMCMC''), ''p-value'' \<mapsto> PInt 0,
              ''status'' \<mapsto> PStr (S ''done'')]"
  let ?rb = "[''method'' \<mapsto> PStr (S ''AdaptiveCovarianceMCMC''), ''iters'' \<mapsto> PIntList [0, 20, 40],
              ''klds'' \<mapsto> PFloatList [0.05, 0.05, 0.05], ''kld'' \<mapsto> PFloat 0.027,
              ''ess'' \<mapsto> PFloatList [270], ''status'' \<mapsto> PStr (S ''done'')]"
  from run_ends_done [of returning_pints "Geweke_init (S ''AdaptiveCovarianceMCMC'') 1 0.1 3"
      Map.empty "S ''log''" ?rg] Geweke_run_example
  have 1: "?rg ''status'' = Some (PStr (S ''done''))" by blast
  from run_ends_done [of returning_pints "MCMCBanana_init (S ''AdaptiveCovarianceMCMC'') 1 0.1 540"
      Map.empty "S ''log''" ?rb] MCMCBanana_run_example
  have 2: "?rb ''status'' = Some (PStr (S ''done''))" by blast
  from Geweke_run_example 1 MCMCBanana_run_example 2 show ?thesis by blast
qed




text \<open>
  C10. When \<open>Geweke._run\<close> returns without raising, it has written exactly the fields
  \<open>method\<close>, \<open>p-value\<close> and \<open>status\<close>, and \<open>p-value\<close> is the constant 0. A second run of the
  same test on the same \<open>result\<close>, with other samples and so another \<open>g_samples\<close>, stores the
  same fields with the same values.
\<close>

theorem Geweke_run_stores_constant:
  assumes "Geweke_run E self result log_path = (None, r)"
  shows "r = result(''method'' \<mapsto> PStr (self_method self), ''p-value'' \<mapsto> PInt 0,
                     ''status'' \<mapsto> PStr (S ''done'')) \<and>
         r ''p-value'' = Some (PInt 0) \<and>
         dom r = dom result \<union> {''method'', ''p-value'', ''status''} \<and>
         (\<forall>field. field \<notin> {''method'', ''p-value'', ''status''} \<longrightarrow> r field = result field) \<and>
         (Geweke_run E' self result log_path' = (None, r') \<longrightarrow> r' = r)"
proof -
  from Geweke_run_returns [OF assms] have r:
    "r = result(''method'' \<mapsto> PStr (self_method self), ''p-value'' \<mapsto> PInt 0,
                ''status'' \<mapsto> PStr (S ''done''))" .
  then have p: "r ''p-value'' = Some (PInt 0)" by simp
  from r have d: "dom r = dom result \<union> {''method'', ''p-value'', ''status''}" by auto
  from r have f: "\<forall>field. field \<notin> {''method'', ''p-value'', ''status''} \<longrightarrow> r field = result field"
    by simp
  have i: "Geweke_run E' self result log_path' = (None, r') \<longrightarrow> r' = r"
  proof
    assume "Geweke_run E' self result log_path' = (None, r')"
    from Geweke_run_returns [OF this] r show "r' = r" by simp
  qed
  from r p d f i show ?thesis by blast
qed

lemma geweke_g_samples_example:
  "geweke_g_samples returning_pints (Geweke_init (S ''AdaptiveCovarianceMCMC'') 1 0.1 3) = Inr [1, 2]"
  by (simp add: geweke_g_samples_def returning_pints_def Geweke_init_def upt_rec)

lemma geweke_g_samples_example':
  "geweke_g_samples
     (returning_pints\<lparr> successive_conditional_simulator := (\<lambda>method nchains i x. Inr (2 * x + 3)) \<rparr>)
     (Geweke_init (S ''AdaptiveCovarianceMCMC'') 1 0.1 3) = Inr [3, 9]"
  by (simp add: geweke_g_samples_def returning_pints_def Geweke_init_def upt_rec)

lemma Geweke_run_example':
  "Geweke_run
     (returning_pints\<lparr> successive_conditional_simulator := (\<lambda>method nchains i x. Inr (2 * x + 3)) \<rparr>)
     (Geweke_init (S ''AdaptiveCovarianceMCMC'') 1 0.1 3) Map.empty (S ''log'')
     = (None, [''method'' \<mapsto> PStr (S ''AdaptiveCovarianceMCMC''), ''p-value'' \<mapsto> PInt 0,
               ''status'' \<mapsto> PStr (S ''done'')])"
  by (simp add: Geweke_run_def geweke_g_samples_def returning_pints_def Geweke_init_def upt_rec)

theorem Geweke_run_stores_constant_witness:
  "geweke_g_samples returning_pints (Geweke_init (S ''AdaptiveCovarianceMCMC'') 1 0.1 3)
     = Inr [1, 2] \<and>
   geweke_g_samples
     (returning_pints\<lparr> successive_conditional_simulator := (\<lambda>method nchains i x. Inr (2 * x + 3)) \<rparr>)
     (Geweke_init (S ''AdaptiveCovarianceMCMC'') 1 0.1 3) = Inr [3, 9] \<and>
   Geweke_run returning_pints (Geweke_init (S ''AdaptiveCovarianceMCMC'') 1 0.1 3) Map.empty (S ''log'')
     = (None, [''method'' \<mapsto> PStr (S ''AdaptiveCovarianceMCMC''), ''p-value'' \<mapsto> PInt 0,
               ''status'' \<mapsto> PStr (S ''done'')]) \<and>
   Geweke_run
     (returning_pints\<lparr> successive_conditional_simulator := (\<lambda>method nchains i x. Inr (2 * x + 3)) \<rparr>)
     (Geweke_init (S ''AdaptiveCovarianceMCMC'') 1 0.1 3) Map.empty (S ''log'')
     = (None, [''method'' \<mapsto> PStr (S ''AdaptiveCovarianceMCMC''), ''p-value'' \<mapsto> PInt 0,
               ''status'' \<mapsto> PStr (S ''done'')]) \<and>
   [''method'' \<mapsto> PStr (S ''AdaptiveCovarianceMCMC''), ''p-value'' \<mapsto> PInt 0,
    ''status'' \<mapsto> PStr (S ''done'')] ''p-value'' = Some (PInt 0) \<and>
   dom [''method'' \<mapsto> PStr (S ''AdaptiveCovarianceMCMC''), ''p-value'' \<mapsto> PInt 0,
        ''status'' \<mapsto> PStr (S ''done'')] = {''method'', ''p-value'', ''status''}"
proof -
  let ?r = "[''method'' \<mapsto> PStr (S ''AdaptiveCovarianceMCMC''), ''p-value'' \<mapsto> PInt 0,
             ''status'' \<mapsto> PStr (S ''done'')]"
  have p: "?r ''p-value'' = Some (PInt 0)"
    using Geweke_run_stores_constant [OF Geweke_run_example, where E' = returning_pints
        and log_path' = "[]" and r' = ?r]
    by (elim conjE)
  have "dom ?r = dom (Map.empty :: result) \<union> {''method'', ''p-value'', ''status''}"
    using Geweke_run_stores_constant [OF Geweke_run_example, where E' = returning_pints
        and log_path' = "[]" and r' = ?r]
    by (elim conjE)
  then have d: "dom ?r = {''method'', ''p-value'', ''status''}"
    by (simp only: dom_empty Un_empty_left)
  show ?thesis
    by (intro conjI)
      (rule geweke_g_samples_example geweke_g_samples_example' Geweke_run_example
        Geweke_run_example' p d)+
qed

end
